theory Spec2Isabelle
  imports Complex_Main "HOL-Library.AList"
begin

section \<open>JavaScript values\<close>

text \<open>
  The values that travel through the workspace: what \<^verbatim>\<open>JSON.parse\<close> yields, what a text
  input yields (strings), and what a property read can yield (\<^verbatim>\<open>undefined\<close>, or a member
  inherited from \<^verbatim>\<open>Object.prototype\<close>, written \<open>Native\<close> with the member's name).

  A number is \<^verbatim>\<open>NaN\<close>, an infinity or a finite value; every finite double is a rational, and
  the sign of zero is not modelled. No claim depends on arithmetic: the conversions the
  source calls (\<^verbatim>\<open>Number\<close>, \<^verbatim>\<open>String\<close>) are parameters, see \<open>runtime\<close> below.

  An object is the list of its own enumerable properties in the order \<^verbatim>\<open>Object.keys\<close>
  reports them (insertion order; the keys of the data at hand are not array indices, which
  the runtime would list first).
\<close>

datatype jsnum = NaN | PosInfinity | NegInfinity | Finite rat

datatype jsval =
    Undefined
  | Null
  | Bool bool
  | Num jsnum
  | Str string
  | Arr "jsval list"
  | Obj "(string \<times> jsval) list"
  | Native string

type_synonym obj = "(string \<times> jsval) list"

text \<open>A thrown \<^verbatim>\<open>Error\<close>; the handlers read only \<^verbatim>\<open>err.message\<close>.\<close>

datatype jserror = JsError (message: string)

text \<open>
  The built-in functions of the runtime that the source calls: \<^verbatim>\<open>Number(v)\<close>,
  \<^verbatim>\<open>String(v)\<close>, \<^verbatim>\<open>s.toLowerCase()\<close>, and the message of the error raised by an
  operation that fails: a member access on \<^verbatim>\<open>undefined\<close>, \<^verbatim>\<open>Object.keys(undefined)\<close>,
  parsing an empty body (its text differs between runtimes; the argument names the
  operation).
\<close>

record runtime =
  js_Number :: "jsval \<Rightarrow> jsnum"
  js_String :: "jsval \<Rightarrow> string"
  js_toLowerCase :: "string \<Rightarrow> string"
  js_error_message :: "string \<Rightarrow> string"

text \<open>The global \<^verbatim>\<open>isNaN\<close> applied to a number.\<close>

definition isNaN :: "jsnum \<Rightarrow> bool" where
  "isNaN n = (n = NaN)"

text \<open>Truthiness, as tested by \<^verbatim>\<open>if (v)\<close>.\<close>

fun ToBoolean :: "jsval \<Rightarrow> bool" where
  "ToBoolean Undefined = False"
| "ToBoolean Null = False"
| "ToBoolean (Bool b) = b"
| "ToBoolean (Num n) = (n \<noteq> NaN \<and> n \<noteq> Finite 0)"
| "ToBoolean (Str s) = (s \<noteq> [])"
| "ToBoolean (Arr xs) = True"
| "ToBoolean (Obj kvs) = True"
| "ToBoolean (Native f) = True"

text \<open>
  The properties every ordinary object inherits from \<^verbatim>\<open>Object.prototype\<close>. All of them are
  functions, except \<^verbatim>\<open>__proto__\<close>, an accessor that yields \<^verbatim>\<open>Object.prototype\<close> itself.
\<close>

definition Object_prototype :: "string list" where
  "Object_prototype =
     [''constructor'', ''__defineGetter__'', ''__defineSetter__'', ''hasOwnProperty'',
      ''__lookupGetter__'', ''__lookupSetter__'', ''isPrototypeOf'', ''propertyIsEnumerable'',
      ''toString'', ''valueOf'', ''__proto__'', ''toLocaleString'']"

text \<open>
  The property read \<^verbatim>\<open>o[k]\<close> on an ordinary object: an own property first, then the
  prototype, then \<^verbatim>\<open>undefined\<close>.
\<close>

definition js_get :: "obj \<Rightarrow> string \<Rightarrow> jsval" where
  "js_get ob k =
     (case map_of ob k of
        Some v \<Rightarrow> v
      | None \<Rightarrow> if k \<in> set Object_prototype then Native k else Undefined)"

text \<open>
  The assignment \<^verbatim>\<open>o[k] = v\<close> of a primitive \<open>v\<close> to an ordinary object: an own property is
  overwritten in place; \<^verbatim>\<open>__proto__\<close>, when not an own property, reaches the inherited setter,
  which ignores a primitive; any other key becomes a new own property (the inherited
  members are writable data properties, so they are shadowed).
\<close>

definition js_set :: "obj \<Rightarrow> string \<Rightarrow> jsval \<Rightarrow> obj" where
  "js_set ob k v =
     (case map_of ob k of
        Some _ \<Rightarrow> AList.update k v ob
      | None \<Rightarrow> if k = ''__proto__'' then ob else ob @ [(k, v)])"

text \<open>Decimal digits of an array index, as a property key spells it.\<close>

fun decimal :: "nat \<Rightarrow> string" where
  "decimal n =
     (if n < 10 then [char_of (48 + n)] else decimal (n div 10) @ [char_of (48 + n mod 10)])"

declare decimal.simps [simp del]

text \<open>
  The own enumerable properties that the spread \<^verbatim>\<open>{...v}\<close> copies into a fresh object:
  those of an object, the indexed elements of an array or of a string, none for any other
  value (\<^verbatim>\<open>undefined\<close> and \<^verbatim>\<open>null\<close> included).
\<close>

fun spread :: "jsval \<Rightarrow> obj" where
  "spread (Obj kvs) = kvs"
| "spread (Arr xs) = zip (map decimal [0..<length xs]) xs"
| "spread (Str s) = zip (map decimal [0..<length s]) (map (\<lambda>c. Str [c]) s)"
| "spread v = []"

text \<open>\<^verbatim>\<open>Object.keys(v)\<close>: a \<^verbatim>\<open>TypeError\<close> on \<^verbatim>\<open>undefined\<close> and \<^verbatim>\<open>null\<close>.\<close>

definition Object_keys :: "runtime \<Rightarrow> jsval \<Rightarrow> jserror + string list" where
  "Object_keys rt v =
     (if v = Undefined \<or> v = Null then Inl (JsError (js_error_message rt ''Object.keys''))
      else Inr (map fst (spread v)))"

text \<open>\<^verbatim>\<open>Array.prototype.join\<close> on an array of strings.\<close>

fun join_str :: "string \<Rightarrow> string list \<Rightarrow> string" where
  "join_str sep [] = []"
| "join_str sep [x] = x"
| "join_str sep (x # y # ys) = x @ sep @ join_str sep (y # ys)"

text \<open>
  The element read \<^verbatim>\<open>xs[i]\<close> and the element write \<^verbatim>\<open>xs[i] = v\<close> on an array. A read
  beyond the end yields \<^verbatim>\<open>undefined\<close>. A write beyond the end grows the array; the slots
  skipped over are empty, and an empty slot is written \<open>Undefined\<close> here.
\<close>

definition array_get :: "jsval list \<Rightarrow> nat \<Rightarrow> jsval" where
  "array_get xs i = (if i < length xs then xs ! i else Undefined)"

definition array_set :: "jsval list \<Rightarrow> nat \<Rightarrow> jsval \<Rightarrow> jsval list" where
  "array_set xs i v =
     (if i < length xs then xs[i := v] else xs @ replicate (i - length xs) Undefined @ [v])"


section \<open>Mock backend (server.ts)\<close>

text \<open>
  \<^verbatim>\<open>mockData: Record<string, any[]>\<close>: an object literal whose own properties are the
  tables, each an array of rows.
\<close>

type_synonym mock = "(string \<times> jsval list) list"

definition users :: "jsval list" where
  "users =
     [Obj [(''id'', Num (Finite 1)), (''name'', Str ''Alice Johnson''),
           (''email'', Str ''alice@example.com''), (''role_id'', Num (Finite 1))],
      Obj [(''id'', Num (Finite 2)), (''name'', Str ''Bob Smith''),
           (''email'', Str ''bob@example.com''), (''role_id'', Num (Finite 2))],
      Obj [(''id'', Num (Finite 3)), (''name'', Str ''Charlie Brown''),
           (''email'', Str ''charlie@example.com''), (''role_id'', Num (Finite 2))],
      Obj [(''id'', Num (Finite 4)), (''name'', Str ''Diana Prince''),
           (''email'', Str ''diana@example.com''), (''role_id'', Num (Finite 1))]]"

definition roles :: "jsval list" where
  "roles =
     [Obj [(''id'', Num (Finite 1)), (''role_name'', Str ''Admin''), (''permissions'', Str ''all'')],
      Obj [(''id'', Num (Finite 2)), (''role_name'', Str ''User''),
           (''permissions'', Str ''read-only'')]]"

definition orders :: "jsval list" where
  "orders =
     [Obj [(''id'', Num (Finite 101)), (''user_id'', Num (Finite 1)), (''product'', Str ''Laptop''),
           (''amount'', Num (Finite 1200))],
      Obj [(''id'', Num (Finite 102)), (''user_id'', Num (Finite 2)), (''product'', Str ''Mouse''),
           (''amount'', Num (Finite 25))],
      Obj [(''id'', Num (Finite 103)), (''user_id'', Num (Finite 1)), (''product'', Str ''Monitor''),
           (''amount'', Num (Finite 300))],
      Obj [(''id'', Num (Finite 104)), (''user_id'', Num (Finite 3)), (''product'', Str ''Keyboard''),
           (''amount'', Num (Finite 75))]]"

definition mockData :: mock where
  "mockData = [(''users'', users), (''roles'', roles), (''orders'', orders)]"

text \<open>\<^verbatim>\<open>mockData[name]\<close>: the property read on the object literal.\<close>

definition mock_get :: "mock \<Rightarrow> string \<Rightarrow> jsval" where
  "mock_get m nm = js_get (map (\<lambda>(k, rows). (k, Arr rows)) m) nm"

text \<open>
  A response: the status (200 unless \<^verbatim>\<open>res.status\<close> sets it) and the value handed to
  \<^verbatim>\<open>res.json\<close>, which the framework serialises as the body.
\<close>

record response =
  status :: nat
  body :: jsval

text \<open>The handler of \<^verbatim>\<open>GET /api/tables\<close>.\<close>

definition api_tables :: "mock \<Rightarrow> response" where
  "api_tables m = \<lparr>status = 200, body = Arr (map Str (map fst m))\<rparr>"

text \<open>The handler of \<^verbatim>\<open>GET /api/table/:name\<close>; the argument is \<^verbatim>\<open>req.params.name\<close>.\<close>

definition api_table :: "mock \<Rightarrow> string \<Rightarrow> response" where
  "api_table m nm =
     (if ToBoolean (mock_get m nm) then \<lparr>status = 200, body = mock_get m nm\<rparr>
      else \<lparr>status = 404, body = Obj [(''error'', Str ''Table not found'')]\<rparr>)"

text \<open>
  The routes that \<^verbatim>\<open>startServer\<close> registers with \<^verbatim>\<open>app.get\<close>, in order. The argument tells
  whether \<^verbatim>\<open>NODE_ENV\<close> is \<^verbatim>\<open>production\<close>: then a catch-all route serves the page's
  \<^verbatim>\<open>index.html\<close>; otherwise the development middleware does, without a route of its own.
\<close>

datatype handler = Tables | Table | IndexHtml

record route =
  http_method :: string
  path :: string
  serves :: handler

definition startServer_routes :: "bool \<Rightarrow> route list" where
  "startServer_routes production =
     [\<lparr>http_method = ''GET'', path = ''/api/tables'', serves = Tables\<rparr>,
      \<lparr>http_method = ''GET'', path = ''/api/table/:name'', serves = Table\<rparr>]
     @ (if production then [\<lparr>http_method = ''GET'', path = ''*'', serves = IndexHtml\<rparr>] else [])"

text \<open>The REST routes are those that answer with \<^verbatim>\<open>res.json\<close>.\<close>

definition rest_routes :: "bool \<Rightarrow> route list" where
  "rest_routes production = filter (\<lambda>r. serves r \<noteq> IndexHtml) (startServer_routes production)"

text \<open>
  A request, after routing: one of the two API routes with its parameter, or anything else
  (another method or path), which the page middleware answers from outside the backend's
  data: its answer is the parameter \<open>page\<close>. The server's state is \<open>mockData\<close>; each
  request returns the response and the state it leaves.
\<close>

datatype request = GET_tables | GET_table string | Other string

definition serve :: "(string \<Rightarrow> response) \<Rightarrow> mock \<Rightarrow> request \<Rightarrow> response \<times> mock" where
  "serve page m req =
     (case req of
        GET_tables \<Rightarrow> (api_tables m, m)
      | GET_table nm \<Rightarrow> (api_table m nm, m)
      | Other url \<Rightarrow> (page url, m))"

fun serve_all :: "(string \<Rightarrow> response) \<Rightarrow> mock \<Rightarrow> request list \<Rightarrow> response list \<times> mock" where
  "serve_all page m [] = ([], m)"
| "serve_all page m (req # reqs) =
     (let (r, m1) = serve page m req; (rs, m2) = serve_all page m1 reqs in (r # rs, m2))"


section \<open>Visual builder (App.tsx, lines 40-63)\<close>

record vbJoin =
  table :: string
  leftCol :: string
  rightCol :: string

record vbFilter =
  column :: string
  operator :: string
  "value" :: string

text \<open>The body of the \<^verbatim>\<open>vbJoins.forEach\<close> callback: one \<^verbatim>\<open>newQuery += ...\<close>.\<close>

definition append_join :: "string \<Rightarrow> string \<Rightarrow> vbJoin \<Rightarrow> string" where
  "append_join vbBaseTable newQuery join =
     newQuery @ '' JOIN '' @ table join @ '' ON '' @ vbBaseTable @ ''.'' @ leftCol join
       @ '' = '' @ table join @ ''.'' @ rightCol join"

text \<open>The callback of \<^verbatim>\<open>vbFilters.map\<close>.\<close>

definition filterString :: "runtime \<Rightarrow> string \<Rightarrow> vbFilter \<Rightarrow> string" where
  "filterString rt vbBaseTable f =
     (let tbl = (if CHR ''.'' \<in> set (column f) then [] else vbBaseTable @ ''.'');
          val = (if isNaN (js_Number rt (Str (value f)))
                 then [CHR 0x27] @ value f @ [CHR 0x27] else value f)
      in tbl @ column f @ '' '' @ operator f @ '' '' @ val)"

text \<open>The effect body: the string handed to \<^verbatim>\<open>setQuery\<close>.\<close>

definition visual_query :: "runtime \<Rightarrow> string \<Rightarrow> vbJoin list \<Rightarrow> vbFilter list \<Rightarrow> string" where
  "visual_query rt vbBaseTable vbJoins vbFilters =
     (let newQuery = ''SELECT * FROM '' @ vbBaseTable;
          newQuery = foldl (append_join vbBaseTable) newQuery vbJoins
      in if length vbFilters > 0
         then newQuery @ '' WHERE '' @ join_str '' AND '' (map (filterString rt vbBaseTable) vbFilters)
         else newQuery)"

text \<open>
  The clauses as the specification words them: a join clause
  \<^verbatim>\<open> JOIN t ON B.leftCol = t.rightCol\<close>; a filter clause whose column carries the prefix
  \<^verbatim>\<open>B.\<close> unless it already contains a dot, and whose value is unquoted when
  \<^verbatim>\<open>Number(value)\<close> is not \<^verbatim>\<open>NaN\<close> and in single quotes otherwise.
\<close>

definition spec_join_clause :: "string \<Rightarrow> vbJoin \<Rightarrow> string" where
  "spec_join_clause B j =
     '' JOIN '' @ table j @ '' ON '' @ B @ ''.'' @ leftCol j @ '' = '' @ table j @ ''.'' @ rightCol j"

definition spec_filter_clause :: "runtime \<Rightarrow> string \<Rightarrow> vbFilter \<Rightarrow> string" where
  "spec_filter_clause rt B f =
     (if CHR ''.'' \<in> set (column f) then column f else B @ ''.'' @ column f)
       @ '' '' @ operator f @ '' ''
       @ (if js_Number rt (Str (value f)) \<noteq> NaN then value f
          else CHR 0x27 # value f @ [CHR 0x27])"

definition spec_query :: "runtime \<Rightarrow> string \<Rightarrow> vbJoin list \<Rightarrow> vbFilter list \<Rightarrow> string" where
  "spec_query rt B J F =
     ''SELECT * FROM '' @ B @ concat (map (spec_join_clause B) J)
       @ (if F = [] then [] else '' WHERE '' @ join_str '' AND '' (map (spec_filter_clause rt B) F))"

text \<open>
  A runtime for the examples below. Its conversions agree with JavaScript's on the values
  the examples contain (strings of decimal digits, ASCII letters, booleans); it is not a
  model of the conversions in general.
\<close>

fun digits_value :: "string \<Rightarrow> nat \<Rightarrow> nat" where
  "digits_value [] acc = acc"
| "digits_value (c # cs) acc = digits_value cs (10 * acc + (of_char c - 48))"

definition example_Number :: "jsval \<Rightarrow> jsnum" where
  "example_Number v =
     (case v of
        Num n \<Rightarrow> n
      | Str s \<Rightarrow> if list_all (\<lambda>c. 48 \<le> (of_char c :: nat) \<and> (of_char c :: nat) \<le> 57) s
                 then Finite (of_nat (digits_value s 0)) else NaN
      | Bool b \<Rightarrow> Finite (if b then 1 else 0)
      | Null \<Rightarrow> Finite 0
      | _ \<Rightarrow> NaN)"

definition example_String :: "jsval \<Rightarrow> string" where
  "example_String v =
     (case v of
        Str s \<Rightarrow> s
      | Bool b \<Rightarrow> if b then ''true'' else ''false''
      | Null \<Rightarrow> ''null''
      | Undefined \<Rightarrow> ''undefined''
      | _ \<Rightarrow> ''[object Object]'')"

definition example_toLowerCase :: "string \<Rightarrow> string" where
  "example_toLowerCase s =
     map (\<lambda>c. if 65 \<le> (of_char c :: nat) \<and> (of_char c :: nat) \<le> 90
              then char_of (of_char c + (32::nat)) else c) s"

definition example_runtime :: runtime where
  "example_runtime =
     \<lparr>js_Number = example_Number, js_String = example_String,
      js_toLowerCase = example_toLowerCase,
      js_error_message = (\<lambda>access. ''Cannot read properties of undefined (reading '' @ access @ '')'')\<rparr>"


section \<open>Client state and its operations (App.tsx)\<close>

text \<open>The \<^verbatim>\<open>typeof\<close> operator.\<close>

fun typeof :: "jsval \<Rightarrow> string" where
  "typeof Undefined = ''undefined''"
| "typeof Null = ''object''"
| "typeof (Bool b) = ''boolean''"
| "typeof (Num n) = ''number''"
| "typeof (Str s) = ''string''"
| "typeof (Arr xs) = ''object''"
| "typeof (Obj kvs) = ''object''"
| "typeof (Native f) = (if f = ''__proto__'' then ''object'' else ''function'')"

datatype ColumnType = string | number | boolean | date

record ColumnDefinition =
  name :: string
  type :: ColumnType

text \<open>
  \<^verbatim>\<open>interface TableState\<close>. The interface declares \<^verbatim>\<open>columns\<close> as always present; the
  objects are built from untyped JSON, so the field can be missing at run time:
  \<open>None\<close> is \<^verbatim>\<open>undefined\<close>. An entry of \<open>data\<close> is a row, or \<open>Undefined\<close> for an empty slot.
\<close>

record TableState =
  name :: string
  data :: "jsval list"
  columns :: "ColumnDefinition list option"

text \<open>
  An array \<^verbatim>\<open>map\<close> whose callback may throw: the first exception ends it. The same shape
  serves the state updaters \<^verbatim>\<open>prev.map(t => ...)\<close>.
\<close>

fun map_throw :: "('a \<Rightarrow> jserror + 'b) \<Rightarrow> 'a list \<Rightarrow> jserror + 'b list" where
  "map_throw f [] = Inr []"
| "map_throw f (x # xs) =
     (case f x of
        Inl err \<Rightarrow> Inl err
      | Inr y \<Rightarrow> (case map_throw f xs of Inl err \<Rightarrow> Inl err | Inr ys \<Rightarrow> Inr (y # ys)))"

subsection \<open>Loading (lines 66-101) and Reset to Default (lines 281-299)\<close>

text \<open>
  \<^verbatim>\<open>await (await fetch(url)).json()\<close>: the request reaches the server, which answers and
  keeps its state; the client parses the body. The JSON text of a value built from finite
  numbers, strings, booleans, \<^verbatim>\<open>null\<close>, arrays and objects parses back to that value; a
  function has no JSON text, and parsing the empty body throws.
\<close>

definition fetch_json ::
  "runtime \<Rightarrow> (string \<Rightarrow> response) \<Rightarrow> mock \<Rightarrow> request \<Rightarrow> (jserror + jsval) \<times> mock" where
  "fetch_json rt page m req =
     (let (res, m1) = serve page m req
      in (case body res of
            Native f \<Rightarrow> Inl (JsError (js_error_message rt ''json''))
          | Undefined \<Rightarrow> Inl (JsError (js_error_message rt ''json''))
          | v \<Rightarrow> Inr v,
          m1))"

text \<open>Columns and types inferred from the first row (lines 77-85).\<close>

definition infer_columns :: "runtime \<Rightarrow> jsval list \<Rightarrow> jserror + ColumnDefinition list" where
  "infer_columns rt dat =
     (if length dat > 0 then
        (case Object_keys rt (dat ! 0) of
           Inl err \<Rightarrow> Inl err
         | Inr keys \<Rightarrow>
             Inr (map (\<lambda>key.
                    let val = js_get (spread (dat ! 0)) key;
                        ty = string;
                        ty = (if typeof val = ''number'' then number else ty);
                        ty = (if typeof val = ''boolean'' then boolean else ty)
                    in \<lparr>ColumnDefinition.name = key, type = ty\<rparr>) keys))
      else Inr [])"

text \<open>
  One table of the initial load. The table names are the strings that
  \<^verbatim>\<open>/api/tables\<close> listed; they are plain identifiers, which the URL carries unchanged.
  The result is \<open>None\<close> when an exception reaches the \<^verbatim>\<open>catch\<close>, and also when the
  answer is not an array, which no listed table gives.
\<close>

definition load_table ::
  "runtime \<Rightarrow> (string \<Rightarrow> response) \<Rightarrow> mock \<Rightarrow> string \<Rightarrow> TableState option \<times> mock" where
  "load_table rt page m nm =
     (case fetch_json rt page m (GET_table nm) of
        (Inr (Arr dat), m1) \<Rightarrow>
          (case infer_columns rt dat of
             Inl err \<Rightarrow> (None, m1)
           | Inr cols \<Rightarrow> (Some \<lparr>name = nm, data = dat, columns = Some cols\<rparr>, m1))
      | (_, m1) \<Rightarrow> (None, m1))"

text \<open>
  One table of Reset to Default: \<^verbatim>\<open>return { name, data }\<close>, an object without
  \<^verbatim>\<open>columns\<close>. \<open>None\<close> is as for the initial load.
\<close>

definition reload_table ::
  "runtime \<Rightarrow> (string \<Rightarrow> response) \<Rightarrow> mock \<Rightarrow> string \<Rightarrow> TableState option \<times> mock" where
  "reload_table rt page m nm =
     (case fetch_json rt page m (GET_table nm) of
        (Inr (Arr dat), m1) \<Rightarrow> (Some \<lparr>name = nm, data = dat, columns = None\<rparr>, m1)
      | (_, m1) \<Rightarrow> (None, m1))"

text \<open>\<^verbatim>\<open>Promise.all(tableNames.map(...))\<close>: every table is requested; one failure fails all.\<close>

fun fetch_each ::
  "(mock \<Rightarrow> string \<Rightarrow> TableState option \<times> mock) \<Rightarrow> mock \<Rightarrow> string list
     \<Rightarrow> TableState list option \<times> mock" where
  "fetch_each f m [] = (Some [], m)"
| "fetch_each f m (nm # nms) =
     (let (t, m1) = f m nm; (ts, m2) = fetch_each f m1 nms
      in (case t of
            None \<Rightarrow> None
          | Some t' \<Rightarrow> (case ts of None \<Rightarrow> None | Some ts' \<Rightarrow> Some (t' # ts')),
          m2))"

text \<open>The strings of the array that \<^verbatim>\<open>/api/tables\<close> answers with.\<close>

fun as_names :: "jsval \<Rightarrow> string list option" where
  "as_names (Arr vs) = those (map (\<lambda>v. case v of Str s \<Rightarrow> Some s | _ \<Rightarrow> None) vs)"
| "as_names v = None"

text \<open>
  The two loaders: the argument of \<^verbatim>\<open>setTables\<close>, or \<open>None\<close> when \<^verbatim>\<open>setTables\<close> is not
  reached, and the state the server is left in.
\<close>

definition fetch_tables ::
  "(mock \<Rightarrow> string \<Rightarrow> TableState option \<times> mock) \<Rightarrow> runtime \<Rightarrow> (string \<Rightarrow> response) \<Rightarrow> mock
     \<Rightarrow> TableState list option \<times> mock" where
  "fetch_tables f rt page m =
     (case fetch_json rt page m GET_tables of
        (Inr tableNames, m1) \<Rightarrow>
          (case as_names tableNames of
             None \<Rightarrow> (None, m1)
           | Some nms \<Rightarrow> fetch_each f m1 nms)
      | (Inl err, m1) \<Rightarrow> (None, m1))"

definition fetchData ::
  "runtime \<Rightarrow> (string \<Rightarrow> response) \<Rightarrow> mock \<Rightarrow> TableState list option \<times> mock" where
  "fetchData rt page m = fetch_tables (load_table rt page) rt page m"

definition resetToDefault ::
  "runtime \<Rightarrow> (string \<Rightarrow> response) \<Rightarrow> mock \<Rightarrow> TableState list option \<times> mock" where
  "resetToDefault rt page m = fetch_tables (reload_table rt page) rt page m"

subsection \<open>Editing (lines 155-190)\<close>

text \<open>
  The updaters handed to \<^verbatim>\<open>setTables\<close>, applied to the previous state. An updater that
  throws yields \<open>Inl\<close>. The row index is an array index, a natural number; the grid passes
  the index of the row it renders.
\<close>

definition updateCell ::
  "TableState list \<Rightarrow> string \<Rightarrow> nat \<Rightarrow> string \<Rightarrow> jsval \<Rightarrow> TableState list" where
  "updateCell prev tableName rowIndex key val =
     map (\<lambda>t. if name t = tableName then
                 (let newData = data t;
                      newData = array_set newData rowIndex
                                  (Obj (AList.update key val (spread (array_get newData rowIndex))))
                  in t\<lparr>data := newData\<rparr>)
               else t) prev"

text \<open>The second argument is the value of \<^verbatim>\<open>Date.now()\<close>.\<close>

definition addRow ::
  "runtime \<Rightarrow> jsnum \<Rightarrow> TableState list \<Rightarrow> string \<Rightarrow> jserror + TableState list" where
  "addRow rt now prev tableName =
     map_throw (\<lambda>t. if name t = tableName then
                 (if length (data t) > 0 then
                    (case Object_keys rt (data t ! 0) of
                       Inl err \<Rightarrow> Inl err
                     | Inr keys \<Rightarrow>
                         Inr (t\<lparr>data := data t @
                                [Obj (foldl (\<lambda>acc key. AList.update key (Str []) acc) [] keys)]\<rparr>))
                  else Inr (t\<lparr>data := data t @ [Obj [(''id'', Num now)]]\<rparr>))
               else Inr t) prev"

definition updateColumnType ::
  "runtime \<Rightarrow> TableState list \<Rightarrow> string \<Rightarrow> string \<Rightarrow> ColumnType \<Rightarrow> jserror + TableState list" where
  "updateColumnType rt prev tableName columnName newType =
     map_throw (\<lambda>t. if name t = tableName then
                 (case columns t of
                    None \<Rightarrow> Inl (JsError (js_error_message rt ''map''))
                  | Some cs \<Rightarrow>
                      Inr (t\<lparr>columns := Some (map (\<lambda>c. if ColumnDefinition.name c = columnName
                                                       then c\<lparr>type := newType\<rparr> else c) cs)\<rparr>))
               else Inr t) prev"

subsection \<open>Running a query (lines 103-153)\<close>

text \<open>
  The body of the \<^verbatim>\<open>t.columns.forEach\<close> callback (lines 112-120), acting on \<^verbatim>\<open>newRow\<close>.
\<close>

definition cast_column :: "runtime \<Rightarrow> obj \<Rightarrow> ColumnDefinition \<Rightarrow> obj" where
  "cast_column rt newRow col =
     (let val = js_get newRow (ColumnDefinition.name col)
      in if val \<noteq> Undefined \<and> val \<noteq> Null \<and> val \<noteq> Str [] then
           (if type col = number then
              (let num = js_Number rt val
               in js_set newRow (ColumnDefinition.name col) (Num (if isNaN num then Finite 0 else num)))
            else if type col = boolean then
              js_set newRow (ColumnDefinition.name col)
                (Bool (js_toLowerCase rt (js_String rt val) = ''true''))
            else newRow)
         else newRow)"

text \<open>
  The callback of \<^verbatim>\<open>t.data.map\<close> (lines 109-123): \<^verbatim>\<open>newRow\<close> is a fresh copy of the row;
  \<^verbatim>\<open>t.columns.forEach\<close> throws when \<^verbatim>\<open>t.columns\<close> is \<^verbatim>\<open>undefined\<close>.
\<close>

definition castRow :: "runtime \<Rightarrow> ColumnDefinition list option \<Rightarrow> jsval \<Rightarrow> jserror + jsval" where
  "castRow rt cols row =
     (let newRow = spread row
      in case cols of
           None \<Rightarrow> Inl (JsError (js_error_message rt ''forEach''))
         | Some cs \<Rightarrow> Inr (Obj (foldl (cast_column rt) newRow cs)))"

text \<open>\<^verbatim>\<open>castedData\<close>: \<^verbatim>\<open>map\<close> does not call its callback on an empty slot.\<close>

definition castedData :: "runtime \<Rightarrow> TableState \<Rightarrow> jserror + jsval list" where
  "castedData rt t =
     map_throw (\<lambda>row. if row = Undefined then Inr Undefined else castRow rt (columns t) row) (data t)"

text \<open>
  The SQL engine is an external library: \<^verbatim>\<open>alasql(sql)\<close> returns a value or throws, and the
  assignment \<^verbatim>\<open>alasql.tables[name].data = rows\<close> writes into its table registry (it throws
  when the registry has no such table). Both act on the engine's own state \<open>'e\<close>.
\<close>

record 'e engine =
  alasql :: "string \<Rightarrow> 'e \<Rightarrow> (jserror + jsval) \<times> 'e"
  tables_set_data :: "string \<Rightarrow> jsval list \<Rightarrow> 'e \<Rightarrow> (jserror + unit) \<times> 'e"

text \<open>The body of the \<^verbatim>\<open>tables.forEach\<close> callback (lines 108-129), and the loop.\<close>

definition register_table ::
  "runtime \<Rightarrow> 'e engine \<Rightarrow> TableState \<Rightarrow> 'e \<Rightarrow> (jserror + unit) \<times> 'e" where
  "register_table rt eng t e =
     (case castedData rt t of
        Inl err \<Rightarrow> (Inl err, e)
      | Inr cd \<Rightarrow>
          (case alasql eng (''DROP TABLE IF EXISTS '' @ name t) e of
             (Inl err, e1) \<Rightarrow> (Inl err, e1)
           | (Inr _, e1) \<Rightarrow>
               (case alasql eng (''CREATE TABLE '' @ name t) e1 of
                  (Inl err, e2) \<Rightarrow> (Inl err, e2)
                | (Inr _, e2) \<Rightarrow> tables_set_data eng (name t) cd e2)))"

fun register_tables ::
  "runtime \<Rightarrow> 'e engine \<Rightarrow> TableState list \<Rightarrow> 'e \<Rightarrow> (jserror + unit) \<times> 'e" where
  "register_tables rt eng [] e = (Inr (), e)"
| "register_tables rt eng (t # ts) e =
     (case register_table rt eng t e of
        (Inl err, e1) \<Rightarrow> (Inl err, e1)
      | (Inr _, e1) \<Rightarrow> register_tables rt eng ts e1)"

text \<open>The React state that \<^verbatim>\<open>runQuery\<close> reads and sets.\<close>

record app_state =
  tables :: "TableState list"
  query :: string
  queryResult :: "jsval list option"
  queryError :: "string option"

text \<open>The \<^verbatim>\<open>try\<close> block up to the engine's answer to the query (lines 104-132).\<close>

definition run_try :: "runtime \<Rightarrow> 'e engine \<Rightarrow> app_state \<Rightarrow> 'e \<Rightarrow> (jserror + jsval) \<times> 'e" where
  "run_try rt eng s e =
     (case register_tables rt eng (tables s) e of
        (Inl err, e1) \<Rightarrow> (Inl err, e1)
      | (Inr _, e1) \<Rightarrow> alasql eng (query s) e1)"

text \<open>
  \<^verbatim>\<open>runQuery\<close>: the state after the handler and the engine's state. \<^verbatim>\<open>setQueryError(null)\<close>
  opens the \<^verbatim>\<open>try\<close> block; the \<^verbatim>\<open>catch\<close> overrides it. The toast notifications are not
  part of the state.
\<close>

definition runQuery :: "runtime \<Rightarrow> 'e engine \<Rightarrow> app_state \<Rightarrow> 'e \<Rightarrow> app_state \<times> 'e" where
  "runQuery rt eng s e =
     (case run_try rt eng s e of
        (Inr result, e1) \<Rightarrow>
          (if result = Undefined \<or> result = Null
           then (s\<lparr>queryError := None, queryResult := Some []\<rparr>, e1)
           else (let processedResult = (case result of Arr xs \<Rightarrow> xs | _ \<Rightarrow> [result])
                 in (s\<lparr>queryError := None, queryResult := Some processedResult\<rparr>, e1)))
      | (Inl err, e1) \<Rightarrow> (s\<lparr>queryError := Some (message err), queryResult := None\<rparr>, e1))"


subsection \<open>Row objects by reference\<close>

text \<open>
  Above, a row is the value of its object. The cast of lines 109-123 also fixes which
  object is written: \<^verbatim>\<open>{ ...row }\<close> allocates a fresh object and every assignment of the
  callback goes to it. Here the heap lists the row objects allocated so far, an address is
  a position in it, and a table's \<^verbatim>\<open>data\<close> is a list of addresses of row objects; the
  table's columns are defined.
\<close>

type_synonym heap = "obj list"

definition alloc :: "heap \<Rightarrow> obj \<Rightarrow> heap \<times> nat" where
  "alloc h ob = (h @ [ob], length h)"

text \<open>The \<^verbatim>\<open>forEach\<close> callback: it reads and assigns properties of \<^verbatim>\<open>newRow\<close> only.\<close>

definition cast_column_at :: "runtime \<Rightarrow> nat \<Rightarrow> heap \<Rightarrow> ColumnDefinition \<Rightarrow> heap" where
  "cast_column_at rt newRow h col = h[newRow := cast_column rt (h ! newRow) col]"

definition castRow_at :: "runtime \<Rightarrow> ColumnDefinition list \<Rightarrow> heap \<Rightarrow> nat \<Rightarrow> heap \<times> nat" where
  "castRow_at rt cs h row =
     (let (h1, newRow) = alloc h (h ! row)
      in (foldl (cast_column_at rt newRow) h1 cs, newRow))"

fun castedData_at ::
  "runtime \<Rightarrow> ColumnDefinition list \<Rightarrow> heap \<Rightarrow> nat list \<Rightarrow> heap \<times> nat list" where
  "castedData_at rt cs h [] = (h, [])"
| "castedData_at rt cs h (row # rows) =
     (let (h1, newRow) = castRow_at rt cs h row;
          (h2, newRows) = castedData_at rt cs h1 rows
      in (h2, newRow # newRows))"

subsection \<open>The workspace as a whole\<close>

text \<open>
  The backend's data, the page's state and the engine's state, and the user's actions on
  the page. Loading and Reset to Default are the only actions that send requests. An
  updater that throws commits no new state.
\<close>

record 'e system =
  backend :: mock
  app :: app_state
  sql :: 'e

datatype action =
    Load
  | ResetToDefault
  | UpdateCell string nat string jsval
  | AddRow string jsnum
  | UpdateColumnType string string ColumnType
  | SetQuery string
  | RunQuery

definition step ::
  "runtime \<Rightarrow> 'e engine \<Rightarrow> (string \<Rightarrow> response) \<Rightarrow> 'e system \<Rightarrow> action \<Rightarrow> 'e system" where
  "step rt eng page sys a =
     (case a of
        Load \<Rightarrow>
          (case fetchData rt page (backend sys) of
             (Some ts, m) \<Rightarrow> sys\<lparr>backend := m, app := (app sys)\<lparr>tables := ts\<rparr>\<rparr>
           | (None, m) \<Rightarrow> sys\<lparr>backend := m\<rparr>)
      | ResetToDefault \<Rightarrow>
          (case resetToDefault rt page (backend sys) of
             (Some ts, m) \<Rightarrow> sys\<lparr>backend := m, app := (app sys)\<lparr>tables := ts\<rparr>\<rparr>
           | (None, m) \<Rightarrow> sys\<lparr>backend := m\<rparr>)
      | UpdateCell tableName rowIndex key val \<Rightarrow>
          sys\<lparr>app := (app sys)\<lparr>tables := updateCell (tables (app sys)) tableName rowIndex key val\<rparr>\<rparr>
      | AddRow tableName now \<Rightarrow>
          (case addRow rt now (tables (app sys)) tableName of
             Inl err \<Rightarrow> sys
           | Inr ts \<Rightarrow> sys\<lparr>app := (app sys)\<lparr>tables := ts\<rparr>\<rparr>)
      | UpdateColumnType tableName columnName newType \<Rightarrow>
          (case updateColumnType rt (tables (app sys)) tableName columnName newType of
             Inl err \<Rightarrow> sys
           | Inr ts \<Rightarrow> sys\<lparr>app := (app sys)\<lparr>tables := ts\<rparr>\<rparr>)
      | SetQuery q \<Rightarrow> sys\<lparr>app := (app sys)\<lparr>query := q\<rparr>\<rparr>
      | RunQuery \<Rightarrow>
          (let (s1, e1) = runQuery rt eng (app sys) (sql sys) in sys\<lparr>app := s1, sql := e1\<rparr>))"

text \<open>The stored result for an engine return value, in the words of C2.\<close>

definition spec_result :: "jsval \<Rightarrow> jsval list" where
  "spec_result v =
     (case v of Null \<Rightarrow> [] | Undefined \<Rightarrow> [] | Arr xs \<Rightarrow> xs | _ \<Rightarrow> [v])"

text \<open>The cast of one cell, in the words of C9.\<close>

definition spec_cast :: "runtime \<Rightarrow> ColumnType \<Rightarrow> jsval \<Rightarrow> jsval" where
  "spec_cast rt ty v =
     (if v = Undefined \<or> v = Null \<or> v = Str [] then v
      else case ty of
             number \<Rightarrow> if js_Number rt v = NaN then Num (Finite 0) else Num (js_Number rt v)
           | boolean \<Rightarrow> Bool (js_toLowerCase rt (js_String rt v) = ''true'')
           | _ \<Rightarrow> v)"

text \<open>The invariant of C10: every table has a defined \<^verbatim>\<open>columns\<close> array.\<close>

definition has_columns :: "TableState list \<Rightarrow> bool" where
  "has_columns ts = list_all (\<lambda>t. columns t \<noteq> None) ts"


text \<open>
  An engine for the examples below: a registry of named tables that understands three
  shapes of statement and throws on any other.
\<close>

type_synonym registry = "(string \<times> jsval list) list"

definition example_alasql :: "string \<Rightarrow> registry \<Rightarrow> (jserror + jsval) \<times> registry" where
  "example_alasql stmt reg =
     (if take 21 stmt = ''DROP TABLE IF EXISTS ''
        then (Inr (Num (Finite 1)), AList.delete (drop 21 stmt) reg)
      else if take 13 stmt = ''CREATE TABLE ''
        then (Inr (Num (Finite 1)), AList.update (drop 13 stmt) [] reg)
      else if take 14 stmt = ''SELECT * FROM ''
        then (case map_of reg (drop 14 stmt) of
                Some rows \<Rightarrow> (Inr (Arr rows), reg)
              | None \<Rightarrow> (Inl (JsError (''Table does not exist: '' @ drop 14 stmt)), reg))
      else (Inl (JsError ''Parse error''), reg))"

definition example_set_data ::
  "string \<Rightarrow> jsval list \<Rightarrow> registry \<Rightarrow> (jserror + unit) \<times> registry" where
  "example_set_data nm rows reg =
     (case map_of reg nm of
        Some old \<Rightarrow> (Inr (), AList.update nm rows reg)
      | None \<Rightarrow> (Inl (JsError ''Cannot set properties of undefined (setting data)''), reg))"

definition example_engine :: "registry engine" where
  "example_engine = \<lparr>alasql = example_alasql, tables_set_data = example_set_data\<rparr>"


text \<open>The tables as the initial load stores them, for the examples below.\<close>

definition loaded_tables :: "TableState list" where
  "loaded_tables =
     [\<lparr>name = ''users'', data = users,
       columns = Some [\<lparr>ColumnDefinition.name = ''id'', type = number\<rparr>,
                       \<lparr>ColumnDefinition.name = ''name'', type = string\<rparr>,
                       \<lparr>ColumnDefinition.name = ''email'', type = string\<rparr>,
                       \<lparr>ColumnDefinition.name = ''role_id'', type = number\<rparr>]\<rparr>,
      \<lparr>name = ''roles'', data = roles,
       columns = Some [\<lparr>ColumnDefinition.name = ''id'', type = number\<rparr>,
                       \<lparr>ColumnDefinition.name = ''role_name'', type = string\<rparr>,
                       \<lparr>ColumnDefinition.name = ''permissions'', type = string\<rparr>]\<rparr>,
      \<lparr>name = ''orders'', data = orders,
       columns = Some [\<lparr>ColumnDefinition.name = ''id'', type = number\<rparr>,
                       \<lparr>ColumnDefinition.name = ''user_id'', type = number\<rparr>,
                       \<lparr>ColumnDefinition.name = ''product'', type = string\<rparr>,
                       \<lparr>ColumnDefinition.name = ''amount'', type = number\<rparr>]\<rparr>]"

text \<open>The tables as Reset to Default stores them.\<close>

definition reset_tables :: "TableState list" where
  "reset_tables =
     [\<lparr>name = ''users'', data = users, columns = None\<rparr>,
      \<lparr>name = ''roles'', data = roles, columns = None\<rparr>,
      \<lparr>name = ''orders'', data = orders, columns = None\<rparr>]"


section \<open>Properties of the visual builder\<close>

lemma foldl_append_join:
  "foldl (append_join B) q J = q @ concat (map (spec_join_clause B) J)"
  by (induction J arbitrary: q) (simp_all add: append_join_def spec_join_clause_def)

lemma filterString_spec: "filterString rt B f = spec_filter_clause rt B f"
  by (simp add: filterString_def spec_filter_clause_def isNaN_def Let_def)

text \<open>
  C1. For every visual-builder state (base table \<open>B\<close>, joins \<open>J\<close>, filters \<open>F\<close>) the generated
  query is \<^verbatim>\<open>SELECT * FROM B\<close>, then one join clause per join in order, then, when \<open>F\<close> is
  not empty, \<^verbatim>\<open> WHERE \<close> and the filter clauses joined with \<^verbatim>\<open> AND \<close>; a filter clause
  prefixes its column with \<^verbatim>\<open>B.\<close> unless the column contains a dot, and quotes its value
  exactly when \<^verbatim>\<open>Number(value)\<close> is \<^verbatim>\<open>NaN\<close>.
\<close>

theorem visual_query_spec: "visual_query rt B J F = spec_query rt B J F"
proof -
  have m: "map (filterString rt B) F = map (spec_filter_clause rt B) F"
    by (simp add: filterString_spec)
  show ?thesis
    unfolding visual_query_def spec_query_def Let_def foldl_append_join m
    by (cases F) simp_all
qed

theorem visual_query_spec_witness:
  "visual_query example_runtime ''users''
     [\<lparr>table = ''roles'', leftCol = ''role_id'', rightCol = ''id''\<rparr>]
     [\<lparr>column = ''id'', operator = ''>'', value = ''1''\<rparr>,
      \<lparr>column = ''roles.role_name'', operator = ''='', value = ''Admin''\<rparr>]
   = ''SELECT * FROM users JOIN roles ON users.role_id = roles.id WHERE users.id > 1 AND roles.role_name = ''
       @ [CHR 0x27] @ ''Admin'' @ [CHR 0x27]"
  using visual_query_spec [of example_runtime "''users''"
     "[\<lparr>table = ''roles'', leftCol = ''role_id'', rightCol = ''id''\<rparr>]"
     "[\<lparr>column = ''id'', operator = ''>'', value = ''1''\<rparr>,
       \<lparr>column = ''roles.role_name'', operator = ''='', value = ''Admin''\<rparr>]"]
  by (simp add: spec_query_def spec_join_clause_def spec_filter_clause_def
        example_runtime_def example_Number_def)


section \<open>Properties of the mock backend\<close>

lemma map_of_mock_get:
  "map_of (map (\<lambda>(k, rows). (k, Arr rows)) m) nm = map_option Arr (map_of m nm)"
  by (induction m) auto

text \<open>A name that is a key of the data is answered with that table's array and status 200.\<close>

lemma api_table_own:
  "map_of m nm = Some rows \<Longrightarrow> api_table m nm = \<lparr>status = 200, body = Arr rows\<rparr>"
  by (simp add: api_table_def mock_get_def js_get_def map_of_mock_get)

text \<open>A name that is neither a key nor a member of \<^verbatim>\<open>Object.prototype\<close> is answered with 404.\<close>

lemma api_table_missing:
  "map_of m nm = None \<Longrightarrow> nm \<notin> set Object_prototype \<Longrightarrow>
     api_table m nm = \<lparr>status = 404, body = Obj [(''error'', Str ''Table not found'')]\<rparr>"
  by (simp add: api_table_def mock_get_def js_get_def map_of_mock_get)

text \<open>
  A name that is no key but a member of \<^verbatim>\<open>Object.prototype\<close> reads the inherited member,
  which is truthy: the handler answers with status 200 and hands that member to
  \<^verbatim>\<open>res.json\<close>.
\<close>

lemma api_table_inherited:
  "map_of m nm = None \<Longrightarrow> nm \<in> set Object_prototype \<Longrightarrow>
     api_table m nm = \<lparr>status = 200, body = Native nm\<rparr>"
  by (simp add: api_table_def mock_get_def js_get_def map_of_mock_get)

lemma api_tables_mockData:
  "api_tables mockData = \<lparr>status = 200, body = Arr [Str ''users'', Str ''roles'', Str ''orders'']\<rparr>"
  by (simp add: api_tables_def mockData_def)

text \<open>
  C3. \<^verbatim>\<open>GET /api/table/constructor\<close>: \<^verbatim>\<open>constructor\<close> is not a key of the mock data, yet
  the answer is not the 404 error; it has status 200.
\<close>

theorem api_table_constructor:
  "map_of mockData ''constructor'' = None \<and>
   api_table mockData ''constructor'' = \<lparr>status = 200, body = Native ''constructor''\<rparr>"
  by (simp add: api_table_def mock_get_def js_get_def mockData_def Object_prototype_def)

text \<open>
  C4, as stated: four arrays behind two REST routes. The data holds three.
\<close>

theorem four_arrays_counterexample:
  "\<not> (length mockData = 4 \<and> length (rest_routes False) = 2 \<and> length (rest_routes True) = 2)"
  by (simp add: mockData_def)

text \<open>
  C4, amended. The mock backend consists of exactly three static arrays (\<^verbatim>\<open>users\<close>,
  \<^verbatim>\<open>roles\<close>, \<^verbatim>\<open>orders\<close>) served behind exactly two REST routes, \<^verbatim>\<open>/api/tables\<close> and
  \<^verbatim>\<open>/api/table/:name\<close>, in development and in production.
\<close>

theorem three_arrays_two_routes:
  "mockData = [(''users'', users), (''roles'', roles), (''orders'', orders)] \<and>
   length mockData = 3 \<and>
   map (\<lambda>r. (http_method r, path r)) (rest_routes production) =
     [(''GET'', ''/api/tables''), (''GET'', ''/api/table/:name'')] \<and>
   length (rest_routes production) = 2"
  by (simp add: mockData_def rest_routes_def startServer_routes_def)

lemma serve_state: "snd (serve page m req) = m"
  by (simp add: serve_def split: request.splits)

lemma serve_all_state: "snd (serve_all page m reqs) = m"
  by (induction reqs arbitrary: m) (simp_all add: Let_def split_beta serve_state)

text \<open>
  C5. No request handler changes the mock data: after any sequence of requests the data is
  what it was, and \<^verbatim>\<open>GET /api/tables\<close> and \<^verbatim>\<open>GET /api/table/:name\<close> are answered as they
  are on the first request, whatever requests came before.
\<close>

theorem responses_fixed:
  "snd (serve_all page m reqs) = m \<and>
   fst (serve page (snd (serve_all page m reqs)) GET_tables) = api_tables m \<and>
   fst (serve page (snd (serve_all page m reqs)) (GET_table nm)) = api_table m nm \<and>
   fst (serve page (snd (serve_all page m reqs)) GET_tables) = fst (serve page m GET_tables) \<and>
   fst (serve page (snd (serve_all page m reqs)) (GET_table nm)) = fst (serve page m (GET_table nm))"
  by (simp add: serve_all_state serve_def)

theorem responses_fixed_witness:
  "fst (serve (\<lambda>url. \<lparr>status = 200, body = Str url\<rparr>)
         (snd (serve_all (\<lambda>url. \<lparr>status = 200, body = Str url\<rparr>) mockData
                [GET_table ''users'', Other ''POST /api/table/users'', GET_tables]))
         (GET_table ''roles''))
   = \<lparr>status = 200, body = Arr roles\<rparr>"
  using responses_fixed [of "\<lambda>url. \<lparr>status = 200, body = Str url\<rparr>" mockData
          "[GET_table ''users'', Other ''POST /api/table/users'', GET_tables]" "''roles''"]
  by (simp add: serve_def split_beta serve_state api_table_own mockData_def)

section \<open>Properties of the cell editor\<close>

lemma length_array_set:
  "i < length xs \<Longrightarrow> length (array_set xs i v) = length xs"
  by (simp add: array_set_def)

lemma nth_array_set:
  "i < length xs \<Longrightarrow> array_set xs i v ! j = (if j = i then v else xs ! j)"
  by (simp add: array_set_def)

lemma length_updateCell: "length (updateCell prev tableName rowIndex key val) = length prev"
  by (simp add: updateCell_def)

lemma nth_updateCell:
  "n < length prev \<Longrightarrow>
   updateCell prev tableName rowIndex key val ! n =
     (if name (prev ! n) = tableName
      then (prev ! n)\<lparr>data := array_set (data (prev ! n)) rowIndex
              (Obj (AList.update key val (spread (array_get (data (prev ! n)) rowIndex))))\<rparr>
      else prev ! n)"
  by (simp add: updateCell_def Let_def)

text \<open>
  C6, as stated: for every row index the row counts are unchanged. An index at or beyond
  the end of the table's rows makes the array grow: editing row index 2 of the two-row
  table \<^verbatim>\<open>roles\<close> leaves it with three rows.
\<close>

theorem updateCell_grows_counterexample:
  "length (data (loaded_tables ! 1)) = 2 \<and>
   length (data (updateCell loaded_tables ''roles'' 2 ''id'' (Str ''7'') ! 1)) = 3"
  by (simp add: updateCell_def loaded_tables_def roles_def array_set_def array_get_def)

text \<open>
  C6, amended. For every table name, column key and value, and every row index within the
  rows of the tables of that name, \<^verbatim>\<open>updateCell\<close> replaces only the value at that
  (table, row, key) cell: the number of tables, every table's name, column definitions and
  row count are unchanged; a table of another name is unchanged; in a table of that name
  every other row is unchanged, and the addressed row is an object whose properties are
  those of the old row with \<open>key\<close> set to the value.
\<close>

theorem updateCell_frame:
  assumes inrange: "\<forall>t \<in> set prev. name t = tableName \<longrightarrow> rowIndex < length (data t)"
    and n: "n < length prev"
  shows "length (updateCell prev tableName rowIndex key val) = length prev \<and>
         name (updateCell prev tableName rowIndex key val ! n) = name (prev ! n) \<and>
         columns (updateCell prev tableName rowIndex key val ! n) = columns (prev ! n) \<and>
         length (data (updateCell prev tableName rowIndex key val ! n)) = length (data (prev ! n)) \<and>
         (name (prev ! n) \<noteq> tableName \<longrightarrow> updateCell prev tableName rowIndex key val ! n = prev ! n) \<and>
         (name (prev ! n) = tableName \<longrightarrow>
            (\<forall>j. j \<noteq> rowIndex \<longrightarrow>
               data (updateCell prev tableName rowIndex key val ! n) ! j = data (prev ! n) ! j) \<and>
            data (updateCell prev tableName rowIndex key val ! n) ! rowIndex =
              Obj (AList.update key val (spread (data (prev ! n) ! rowIndex))) \<and>
            map_of (spread (data (updateCell prev tableName rowIndex key val ! n) ! rowIndex)) =
              (map_of (spread (data (prev ! n) ! rowIndex)))(key \<mapsto> val))"
proof (cases "name (prev ! n) = tableName")
  case False
  then show ?thesis using n by (simp add: length_updateCell nth_updateCell)
next
  case True
  with inrange n have r: "rowIndex < length (data (prev ! n))"
    using nth_mem [OF n] by blast
  show ?thesis
    using True n r
    by (simp add: length_updateCell nth_updateCell length_array_set nth_array_set
          array_get_def update_conv')
qed

theorem updateCell_frame_witness:
  "length (updateCell loaded_tables ''roles'' 1 ''role_name'' (Str ''Guest'')) = 3 \<and>
   updateCell loaded_tables ''roles'' 1 ''role_name'' (Str ''Guest'') ! 0 = loaded_tables ! 0 \<and>
   columns (updateCell loaded_tables ''roles'' 1 ''role_name'' (Str ''Guest'') ! 1) = columns (loaded_tables ! 1) \<and>
   length (data (updateCell loaded_tables ''roles'' 1 ''role_name'' (Str ''Guest'') ! 1)) = 2 \<and>
   data (updateCell loaded_tables ''roles'' 1 ''role_name'' (Str ''Guest'') ! 1) ! 0 = roles ! 0 \<and>
   data (updateCell loaded_tables ''roles'' 1 ''role_name'' (Str ''Guest'') ! 1) ! 1 =
     Obj [(''id'', Num (Finite 2)), (''role_name'', Str ''Guest''), (''permissions'', Str ''read-only'')]"
proof -
  have h: "\<forall>t \<in> set loaded_tables. name t = ''roles'' \<longrightarrow> 1 < length (data t)"
    by (simp add: loaded_tables_def roles_def)
  have n0: "0 < length loaded_tables" and n1: "1 < length loaded_tables"
    by (simp_all add: loaded_tables_def)
  have a: "name (loaded_tables ! 0) \<noteq> ''roles''" and b: "name (loaded_tables ! 1) = ''roles''"
    by (simp_all add: loaded_tables_def)
  have d: "data (loaded_tables ! Suc 0) = roles" "length loaded_tables = 3" "length roles = 2"
    by (simp_all add: loaded_tables_def roles_def)
  have u: "AList.update ''role_name'' (Str ''Guest'') (spread (roles ! Suc 0)) =
             [(''id'', Num (Finite 2)), (''role_name'', Str ''Guest''), (''permissions'', Str ''read-only'')]"
    by (simp add: roles_def)
  show ?thesis
    using updateCell_frame [OF h n0, of "''role_name''" "Str ''Guest''"]
          updateCell_frame [OF h n1, of "''role_name''" "Str ''Guest''"]
          a b n0
    by (simp add: d u)
qed

section \<open>The columns of the tables in the state\<close>

lemma has_columns_updateCell:
  "has_columns prev \<Longrightarrow> has_columns (updateCell prev tableName rowIndex key val)"
  by (induction prev) (simp_all add: has_columns_def updateCell_def Let_def)

lemma map_throw_Inr:
  "map_throw f xs = Inr ys \<Longrightarrow> list_all2 (\<lambda>x y. f x = Inr y) xs ys"
proof (induction xs arbitrary: ys)
  case Nil
  then show ?case by simp
next
  case (Cons x xs)
  then show ?case by (auto split: sum.splits)
qed

lemma has_columns_step:
  assumes "list_all2 (\<lambda>t t'. g t = Inr t') prev ts"
    and "\<And>t t'. g t = Inr t' \<Longrightarrow> columns t \<noteq> None \<Longrightarrow> columns t' \<noteq> None"
    and "has_columns prev"
  shows "has_columns ts"
  using assms(1,3) unfolding has_columns_def
proof (induction rule: list_all2_induct)
  case Nil
  show ?case by simp
next
  case (Cons t prev t' ts)
  then show ?case using assms(2) by simp
qed

lemma has_columns_addRow:
  assumes "has_columns prev" and "addRow rt now prev tableName = Inr ts"
  shows "has_columns ts"
proof (rule has_columns_step [OF map_throw_Inr [OF assms(2) [unfolded addRow_def]] _ assms(1)])
  fix t t'
  assume "(if name t = tableName
           then if 0 < length (data t)
                then case Object_keys rt (data t ! 0) of
                       Inl err \<Rightarrow> Inl err
                     | Inr keys \<Rightarrow>
                         Inr (t\<lparr>data := data t @
                                [Obj (foldl (\<lambda>acc key. AList.update key (Str []) acc) [] keys)]\<rparr>)
                else Inr (t\<lparr>data := data t @ [Obj [(''id'', Num now)]]\<rparr>)
           else Inr t) = Inr t'" and "columns t \<noteq> None"
  then show "columns t' \<noteq> None"
    by (auto split: if_splits sum.splits)
qed

lemma has_columns_updateColumnType:
  assumes "has_columns prev" and "updateColumnType rt prev tableName columnName newType = Inr ts"
  shows "has_columns ts"
proof (rule has_columns_step [OF map_throw_Inr [OF assms(2) [unfolded updateColumnType_def]] _ assms(1)])
  fix t t'
  assume "(if name t = tableName
           then case columns t of
                  None \<Rightarrow> Inl (JsError (js_error_message rt ''map''))
                | Some cs \<Rightarrow>
                    Inr (t\<lparr>columns := Some (map (\<lambda>c. if ColumnDefinition.name c = columnName
                                                     then c\<lparr>type := newType\<rparr> else c) cs)\<rparr>)
           else Inr t) = Inr t'" and "columns t \<noteq> None"
  then show "columns t' \<noteq> None"
    by (auto split: if_splits option.splits)
qed

lemma fetch_each_load:
  "fetch_each (load_table rt page) m nms = (Some ts, m') \<Longrightarrow> has_columns ts"
proof (induction nms arbitrary: m ts m')
  case Nil
  then show ?case by (simp add: has_columns_def)
next
  case (Cons nm nms)
  obtain t m1 where l: "load_table rt page m nm = (t, m1)" by (cases "load_table rt page m nm")
  obtain r m2 where f: "fetch_each (load_table rt page) m1 nms = (r, m2)"
    by (cases "fetch_each (load_table rt page) m1 nms")
  from Cons.prems l f obtain t' ts' where t: "t = Some t'" and r: "r = Some ts'" and ts: "ts = t' # ts'"
    by (auto split: option.splits)
  have "columns t' \<noteq> None"
    using l t by (auto simp: load_table_def split: prod.splits sum.splits jsval.splits)
  moreover have "has_columns ts'" using Cons.IH f r by simp
  ultimately show ?case using ts by (simp add: has_columns_def)
qed

lemma has_columns_fetchData:
  "fetchData rt page m = (Some ts, m') \<Longrightarrow> has_columns ts"
  by (auto simp: fetchData_def fetch_tables_def dest: fetch_each_load split: prod.splits sum.splits option.splits)

lemma fetchData_mockData: "fetchData rt page mockData = (Some loaded_tables, mockData)"
  by (simp add: fetchData_def fetch_tables_def fetch_json_def serve_def api_tables_def
        api_table_def mock_get_def js_get_def mockData_def load_table_def infer_columns_def
        Object_keys_def users_def roles_def orders_def loaded_tables_def)

lemma resetToDefault_mockData: "resetToDefault rt page mockData = (Some reset_tables, mockData)"
  by (simp add: resetToDefault_def fetch_tables_def fetch_json_def serve_def api_tables_def
        api_table_def mock_get_def js_get_def mockData_def reload_table_def reset_tables_def)

text \<open>
  After Reset to Default, running any query on any engine ends in the \<^verbatim>\<open>catch\<close>:
  \<^verbatim>\<open>t.columns.forEach\<close> throws on the first table.
\<close>

lemma runQuery_after_reset:
  "runQuery rt eng \<lparr>tables = reset_tables, query = q, queryResult = r, queryError = x\<rparr> e =
     (\<lparr>tables = reset_tables, query = q, queryResult = None,
       queryError = Some (js_error_message rt ''forEach'')\<rparr>, e)"
  by (simp add: runQuery_def run_try_def register_table_def castedData_def castRow_def
        reset_tables_def users_def)

text \<open>
  C10. The initial load, \<^verbatim>\<open>updateCell\<close>, \<^verbatim>\<open>addRow\<close> and \<^verbatim>\<open>updateColumnType\<close> keep every
  table's \<^verbatim>\<open>columns\<close> defined (the lemmas above). Reset to Default does not: the tables it
  stores have no \<^verbatim>\<open>columns\<close>, where the initial load of the same data defines them.
\<close>

theorem reset_drops_columns:
  "fst (resetToDefault rt page mockData) = Some reset_tables \<and> \<not> has_columns reset_tables \<and>
   fst (fetchData rt page mockData) = Some loaded_tables \<and> has_columns loaded_tables"
  by (simp add: resetToDefault_mockData fetchData_mockData has_columns_def reset_tables_def
        loaded_tables_def)

section \<open>Properties of the cast before registration\<close>

lemma map_of_js_set:
  "map_of (js_set ob k v) k' =
     (if k' = k \<and> (map_of ob k \<noteq> None \<or> k \<noteq> ''__proto__'') then Some v else map_of ob k')"
  by (auto simp: js_set_def update_conv' map_add_def split: option.splits)

lemma map_of_js_set_other: "k' \<noteq> k \<Longrightarrow> map_of (js_set ob k v) k' = map_of ob k'"
  by (simp add: map_of_js_set)

lemma map_of_js_set_own: "map_of ob k = Some u \<Longrightarrow> map_of (js_set ob k v) k = Some v"
  by (simp add: map_of_js_set)

lemma js_get_own: "map_of ob k = Some v \<Longrightarrow> js_get ob k = v"
  by (simp add: js_get_def)

lemma cast_column_other:
  "k \<noteq> ColumnDefinition.name col \<Longrightarrow> map_of (cast_column rt newRow col) k = map_of newRow k"
  by (simp add: cast_column_def Let_def map_of_js_set_other)

lemma cast_column_own:
  assumes "map_of newRow (ColumnDefinition.name col) = Some v"
  shows "map_of (cast_column rt newRow col) (ColumnDefinition.name col) = Some (spec_cast rt (type col) v)"
proof (cases "type col")
  case string
  then show ?thesis using assms by (simp add: cast_column_def spec_cast_def js_get_own)
next
  case number
  then show ?thesis using assms
    by (simp add: cast_column_def spec_cast_def js_get_own Let_def isNaN_def map_of_js_set_own)
next
  case boolean
  then show ?thesis using assms
    by (simp add: cast_column_def spec_cast_def js_get_own Let_def map_of_js_set_own)
next
  case date
  then show ?thesis using assms by (simp add: cast_column_def spec_cast_def js_get_own)
qed

lemma foldl_cast_other:
  "k \<notin> ColumnDefinition.name ` set cs \<Longrightarrow> map_of (foldl (cast_column rt) newRow cs) k = map_of newRow k"
  by (induction cs arbitrary: newRow) (simp_all add: cast_column_other)

lemma cast_column_cell:
  assumes "map_of newRow (ColumnDefinition.name col) \<noteq> None \<or>
           ColumnDefinition.name col \<notin> set Object_prototype"
  shows "map_of (cast_column rt newRow col) (ColumnDefinition.name col)
           = map_option (spec_cast rt (type col)) (map_of newRow (ColumnDefinition.name col))"
proof (cases "map_of newRow (ColumnDefinition.name col)")
  case None
  then have "js_get newRow (ColumnDefinition.name col) = Undefined"
    using assms by (simp add: js_get_def)
  then show ?thesis using None by (simp add: cast_column_def)
next
  case (Some v)
  then show ?thesis by (simp add: cast_column_own)
qed

lemma foldl_cast_cell:
  assumes "distinct (map ColumnDefinition.name cs)" and "c \<in> set cs"
    and "map_of newRow (ColumnDefinition.name c) \<noteq> None \<or>
         ColumnDefinition.name c \<notin> set Object_prototype"
  shows "map_of (foldl (cast_column rt) newRow cs) (ColumnDefinition.name c)
           = map_option (spec_cast rt (type c)) (map_of newRow (ColumnDefinition.name c))"
  using assms
proof (induction cs arbitrary: newRow)
  case Nil
  then show ?case by simp
next
  case (Cons col cs)
  show ?case
  proof (cases "c = col")
    case True
    have "ColumnDefinition.name col \<notin> ColumnDefinition.name ` set cs"
      using Cons.prems(1) by simp
    then show ?thesis
      using True Cons.prems(3) by (simp add: foldl_cast_other cast_column_cell)
  next
    case False
    then have c: "c \<in> set cs" using Cons.prems(2) by simp
    then have "ColumnDefinition.name c \<noteq> ColumnDefinition.name col"
      using Cons.prems(1) by (auto simp: image_iff)
    then have e: "map_of (cast_column rt newRow col) (ColumnDefinition.name c)
                = map_of newRow (ColumnDefinition.name c)"
      by (simp add: cast_column_other)
    have d: "distinct (map ColumnDefinition.name cs)" using Cons.prems(1) by simp
    show ?thesis
      using Cons.IH [OF d c, of "cast_column rt newRow col"] Cons.prems(3) e by simp
  qed
qed

lemma map_throw_total:
  "(\<And>x. x \<in> set xs \<Longrightarrow> f x = Inr (g x)) \<Longrightarrow> map_throw f xs = Inr (map g xs)"
  by (induction xs) simp_all

lemma castedData_defined:
  "columns t = Some cs \<Longrightarrow>
   castedData rt t =
     Inr (map (\<lambda>row. if row = Undefined then Undefined
                     else Obj (foldl (cast_column rt) (spread row) cs)) (data t))"
  unfolding castedData_def
  by (rule map_throw_total) (simp add: castRow_def)

text \<open>
  The column names of a table are the keys of its first row, and a change of type keeps
  them: they are declared once each whenever the keys of the row are distinct.
\<close>

lemma infer_columns_names:
  "infer_columns rt dat = Inr cs \<Longrightarrow>
   map ColumnDefinition.name cs = (if dat = [] then [] else map fst (spread (dat ! 0)))"
  by (auto simp: infer_columns_def Object_keys_def Let_def comp_def split: if_splits)

lemma retype_names:
  "map ColumnDefinition.name
     (map (\<lambda>c. if ColumnDefinition.name c = columnName then c\<lparr>type := newType\<rparr> else c) cs)
   = map ColumnDefinition.name cs"
  by (induction cs) simp_all

text \<open>
  C9. Let a table declare its columns once each. For every row of the table and every
  declared column \<open>c\<close>, the cell of the row handed to the engine is the cast of the row's
  cell \<open>v\<close>: for type \<^verbatim>\<open>number\<close>, \<^verbatim>\<open>Number(v)\<close>, or 0 when that is \<^verbatim>\<open>NaN\<close>; for type
  \<^verbatim>\<open>boolean\<close>, whether the lowercased \<^verbatim>\<open>String(v)\<close> is \<^verbatim>\<open>true\<close>; and \<open>v\<close> itself when \<open>v\<close> is
  \<^verbatim>\<open>undefined\<close>, \<^verbatim>\<open>null\<close> or the empty string, or the type is \<^verbatim>\<open>string\<close> (or \<^verbatim>\<open>date\<close>). A
  cell the row does not have stays absent (for a column not named like a member of
  \<^verbatim>\<open>Object.prototype\<close>, which a read would find instead). Cells outside the declared
  columns are unchanged, and no row is lost.
\<close>

theorem castedData_cells:
  assumes "columns t = Some cs"
    and "distinct (map ColumnDefinition.name cs)"
    and "c \<in> set cs"
    and "i < length (data t)"
    and "map_of (spread (data t ! i)) (ColumnDefinition.name c) \<noteq> None \<or>
         ColumnDefinition.name c \<notin> set Object_prototype"
  shows "case castedData rt t of
           Inl err \<Rightarrow> False
         | Inr rows \<Rightarrow>
             length rows = length (data t) \<and>
             map_of (spread (rows ! i)) (ColumnDefinition.name c) =
               map_option (spec_cast rt (type c)) (map_of (spread (data t ! i)) (ColumnDefinition.name c)) \<and>
             (\<forall>k. k \<notin> ColumnDefinition.name ` set cs \<longrightarrow>
                    map_of (spread (rows ! i)) k = map_of (spread (data t ! i)) k)"
proof (cases "data t ! i = Undefined")
  case True
  then show ?thesis using assms(1,4) by (simp add: castedData_defined)
next
  case False
  then show ?thesis
    using assms by (simp add: castedData_defined foldl_cast_cell foldl_cast_other)
qed

theorem castedData_cells_witness:
  "case castedData example_runtime
          \<lparr>name = ''roles'',
           data = [Obj [(''id'', Str ''7''), (''active'', Str ''TRUE''), (''role_name'', Str ''Admin'')]],
           columns = Some [\<lparr>ColumnDefinition.name = ''id'', type = number\<rparr>,
                           \<lparr>ColumnDefinition.name = ''active'', type = boolean\<rparr>]\<rparr> of
     Inl err \<Rightarrow> False
   | Inr rows \<Rightarrow>
       length rows = 1 \<and>
       map_of (spread (rows ! 0)) ''id'' = Some (Num (Finite 7)) \<and>
       map_of (spread (rows ! 0)) ''role_name'' = Some (Str ''Admin'')"
proof -
  let ?cs = "[\<lparr>ColumnDefinition.name = ''id'', type = number\<rparr>,
              \<lparr>ColumnDefinition.name = ''active'', type = boolean\<rparr>]"
  let ?t = "\<lparr>name = ''roles'',
             data = [Obj [(''id'', Str ''7''), (''active'', Str ''TRUE''), (''role_name'', Str ''Admin'')]],
             columns = Some ?cs\<rparr>"
  have h1: "columns ?t = Some ?cs" by simp
  have h2: "distinct (map ColumnDefinition.name ?cs)" by simp
  have h3: "\<lparr>ColumnDefinition.name = ''id'', type = number\<rparr> \<in> set ?cs" by simp
  have h4: "0 < length (data ?t)" by simp
  have h5: "map_of (spread (data ?t ! 0))
              (ColumnDefinition.name \<lparr>ColumnDefinition.name = ''id'', type = number\<rparr>) \<noteq> None \<or>
            ColumnDefinition.name \<lparr>ColumnDefinition.name = ''id'', type = number\<rparr>
              \<notin> set Object_prototype" by simp
  have v: "spec_cast example_runtime number (Str ''7'') = Num (Finite 7)"
    by code_simp
  show ?thesis
    using castedData_cells [OF h1 h2 h3 h4 h5, of example_runtime]
    by (auto simp: v split: sum.splits)
qed

text \<open>The rows that reach the engine's registry are the cast rows.\<close>

lemma register_table_hands_over:
  assumes "castedData rt t = Inr rows"
    and "alasql eng (''DROP TABLE IF EXISTS '' @ name t) e = (Inr a, e1)"
    and "alasql eng (''CREATE TABLE '' @ name t) e1 = (Inr b, e2)"
  shows "register_table rt eng t e = tables_set_data eng (name t) rows e2"
  using assms by (simp add: register_table_def)

section \<open>The cast writes to fresh objects only\<close>

lemma cast_column_at_frame:
  "length (cast_column_at rt r h col) = length h \<and>
   (\<forall>a. a \<noteq> r \<longrightarrow> cast_column_at rt r h col ! a = h ! a)"
  by (simp add: cast_column_at_def)

lemma foldl_cast_column_at_frame:
  "length (foldl (cast_column_at rt r) h cs) = length h \<and>
   (\<forall>a. a \<noteq> r \<longrightarrow> foldl (cast_column_at rt r) h cs ! a = h ! a)"
  by (induction cs arbitrary: h) (simp_all add: cast_column_at_frame)

lemma foldl_cast_column_at_value:
  "r < length h \<Longrightarrow>
   foldl (cast_column_at rt r) h cs ! r = foldl (cast_column rt) (h ! r) cs"
  by (induction cs arbitrary: h) (simp_all add: cast_column_at_def)

lemma castRow_at_frame:
  assumes "castRow_at rt cs h row = (h', newRow)"
  shows "newRow = length h \<and> length h' = Suc (length h) \<and> (\<forall>a < length h. h' ! a = h ! a)"
  using assms foldl_cast_column_at_frame [of rt "length h" "h @ [h ! row]" cs]
  by (auto simp: castRow_at_def alloc_def nth_append)

lemma castRow_at_value:
  assumes "castRow_at rt cs h row = (h', newRow)"
  shows "h' ! newRow = foldl (cast_column rt) (h ! row) cs"
  using assms foldl_cast_column_at_value [of "length h" "h @ [h ! row]" rt cs]
  by (auto simp: castRow_at_def alloc_def)

lemma castedData_at_frame:
  "castedData_at rt cs h rows = (h', newRows) \<Longrightarrow>
   length h \<le> length h' \<and> (\<forall>a < length h. h' ! a = h ! a) \<and>
   length newRows = length rows \<and> (\<forall>r \<in> set newRows. length h \<le> r \<and> r < length h')"
proof (induction rows arbitrary: h h' newRows)
  case Nil
  then show ?case by simp
next
  case (Cons row rows)
  obtain h1 r1 where c: "castRow_at rt cs h row = (h1, r1)" by (cases "castRow_at rt cs h row")
  obtain h2 rs where d: "castedData_at rt cs h1 rows = (h2, rs)"
    by (cases "castedData_at rt cs h1 rows")
  from Cons.prems c d have e: "h' = h2" "newRows = r1 # rs" by simp_all
  note f = castRow_at_frame [OF c]
  note g = Cons.IH [OF d]
  show ?case using e f g by auto
qed

lemma castedData_at_value:
  "castedData_at rt cs h rows = (h', newRows) \<Longrightarrow> \<forall>r \<in> set rows. r < length h \<Longrightarrow>
   map ((!) h') newRows = map (\<lambda>r. foldl (cast_column rt) (h ! r) cs) rows"
proof (induction rows arbitrary: h h' newRows)
  case Nil
  then show ?case by simp
next
  case (Cons row rows)
  obtain h1 r1 where c: "castRow_at rt cs h row = (h1, r1)" by (cases "castRow_at rt cs h row")
  obtain h2 rs where d: "castedData_at rt cs h1 rows = (h2, rs)"
    by (cases "castedData_at rt cs h1 rows")
  from Cons.prems c d have e: "h' = h2" "newRows = r1 # rs" by simp_all
  note f = castRow_at_frame [OF c]
  note v = castRow_at_value [OF c]
  have in1: "\<forall>r \<in> set rows. r < length h1" using Cons.prems(2) f by auto
  note g = Cons.IH [OF d in1]
  note fr = castedData_at_frame [OF d]
  have "h2 ! r1 = h1 ! r1" using fr f by simp
  moreover have "map (\<lambda>r. foldl (cast_column rt) (h1 ! r) cs) rows
               = map (\<lambda>r. foldl (cast_column rt) (h ! r) cs) rows"
    using Cons.prems(2) f by simp
  ultimately show ?case using e g v by simp
qed

section \<open>Properties of running a query\<close>

lemma example_register:
  "register_tables example_runtime example_engine loaded_tables [] = (Inr (), mockData)"
  by code_simp

text \<open>
  When the tables are registered and the engine returns a value for the query,
  \<^verbatim>\<open>runQuery\<close> has called the engine with the query string as it is stored, and the stored
  result is the engine's return value: itself when an array, a one-element array of it when
  not, the empty array when \<^verbatim>\<open>null\<close> or \<^verbatim>\<open>undefined\<close>. The query error is cleared.
\<close>

lemma runQuery_result:
  assumes "register_tables rt eng (tables s) e = (Inr u, e1)"
    and "alasql eng (query s) e1 = (Inr v, e2)"
  shows "runQuery rt eng s e = (s\<lparr>queryError := None, queryResult := Some (spec_result v)\<rparr>, e2)"
  using assms
  by (cases v) (simp_all add: runQuery_def run_try_def spec_result_def)

lemma runQuery_result_example:
  "runQuery example_runtime example_engine
     \<lparr>tables = loaded_tables, query = ''SELECT * FROM roles'', queryResult = None, queryError = None\<rparr> []
   = (\<lparr>tables = loaded_tables, query = ''SELECT * FROM roles'', queryResult = Some roles,
       queryError = None\<rparr>, mockData)"
proof -
  let ?s = "\<lparr>tables = loaded_tables, query = ''SELECT * FROM roles'', queryResult = None,
             queryError = None\<rparr>"
  have r: "register_tables example_runtime example_engine (tables ?s) [] = (Inr (), mockData)"
    by (simp add: example_register)
  have q: "alasql example_engine (query ?s) mockData = (Inr (Arr roles), mockData)"
    by (simp add: example_engine_def example_alasql_def mockData_def)
  show ?thesis
    using runQuery_result [OF r q] by (simp add: spec_result_def)
qed

lemma register_reset_tables:
  "register_tables rt eng reset_tables e = (Inl (JsError (js_error_message rt ''forEach'')), e)"
  by (simp add: register_table_def castedData_def castRow_def reset_tables_def users_def)

text \<open>
  C2. After Reset to Default the tables have no \<^verbatim>\<open>columns\<close>, and \<^verbatim>\<open>runQuery\<close> does not reach
  the engine: \<^verbatim>\<open>t.columns.forEach\<close> throws on the first table, the engine's state is the one
  it had, and the stored result is \<^verbatim>\<open>null\<close> with the message of the \<^verbatim>\<open>TypeError\<close> as the
  query error, whatever the query. With the example engine and the query
  \<^verbatim>\<open>SELECT * FROM roles\<close>, the engine would return the rows of \<^verbatim>\<open>roles\<close>; the stored result
  is \<^verbatim>\<open>null\<close>.
\<close>

theorem runQuery_after_reset_skips_engine:
  "tables (app (step rt eng page \<lparr>backend = mockData, app = s, sql = e\<rparr> ResetToDefault)) = reset_tables \<and>
   runQuery rt eng (s\<lparr>tables := reset_tables\<rparr>) e =
     (s\<lparr>tables := reset_tables, queryError := Some (js_error_message rt ''forEach''),
        queryResult := None\<rparr>, e) \<and>
   alasql example_engine ''SELECT * FROM roles'' mockData = (Inr (Arr roles), mockData) \<and>
   runQuery example_runtime example_engine
     \<lparr>tables = reset_tables, query = ''SELECT * FROM roles'', queryResult = None, queryError = None\<rparr>
     mockData =
     (\<lparr>tables = reset_tables, query = ''SELECT * FROM roles'', queryResult = None,
       queryError = Some ''Cannot read properties of undefined (reading forEach)''\<rparr>, mockData)"
proof (intro conjI)
  show "tables (app (step rt eng page \<lparr>backend = mockData, app = s, sql = e\<rparr> ResetToDefault)) = reset_tables"
    by (simp add: step_def resetToDefault_mockData)
  show "runQuery rt eng (s\<lparr>tables := reset_tables\<rparr>) e =
     (s\<lparr>tables := reset_tables, queryError := Some (js_error_message rt ''forEach''),
        queryResult := None\<rparr>, e)"
    by (simp add: runQuery_def run_try_def register_reset_tables)
  show "alasql example_engine ''SELECT * FROM roles'' mockData = (Inr (Arr roles), mockData)"
    by (simp add: example_engine_def example_alasql_def mockData_def)
  show "runQuery example_runtime example_engine
     \<lparr>tables = reset_tables, query = ''SELECT * FROM roles'', queryResult = None, queryError = None\<rparr>
     mockData =
     (\<lparr>tables = reset_tables, query = ''SELECT * FROM roles'', queryResult = None,
       queryError = Some ''Cannot read properties of undefined (reading forEach)''\<rparr>, mockData)"
    by (simp add: runQuery_def run_try_def register_reset_tables example_runtime_def)
qed

lemma runQuery_tables: "tables (fst (runQuery rt eng s e)) = tables s"
  by (simp add: runQuery_def Let_def split: prod.splits sum.splits)

lemma runQuery_caught:
  assumes "run_try rt eng s e = (Inl err, e1)"
  shows "runQuery rt eng s e = (s\<lparr>queryError := Some (message err), queryResult := None\<rparr>, e1)"
  using assms by (simp add: runQuery_def)

text \<open>
  C8. When the engine throws on the query, \<^verbatim>\<open>runQuery\<close> sets the query error to the thrown
  message and the query result to \<^verbatim>\<open>null\<close>, and leaves the tables state as it was; the cast
  before registration leaves every row object that existed before it as it was.
\<close>

theorem runQuery_engine_throws:
  assumes "register_tables rt eng (tables s) e = (Inr u, e1)"
    and "alasql eng (query s) e1 = (Inl err, e2)"
  shows "runQuery rt eng s e = (s\<lparr>queryError := Some (message err), queryResult := None\<rparr>, e2) \<and>
         tables (fst (runQuery rt eng s e)) = tables s \<and>
         (\<forall>a < length h. fst (castedData_at rt cs h rows) ! a = h ! a)"
proof -
  have "\<forall>a < length h. fst (castedData_at rt cs h rows) ! a = h ! a"
    using castedData_at_frame [of rt cs h rows "fst (castedData_at rt cs h rows)"
            "snd (castedData_at rt cs h rows)"]
    by simp
  then show ?thesis
    using assms by (simp add: runQuery_def run_try_def)
qed

theorem runQuery_engine_throws_witness:
  "runQuery example_runtime example_engine
     \<lparr>tables = loaded_tables, query = ''SELEKT * FROM roles'', queryResult = Some roles,
      queryError = None\<rparr> []
   = (\<lparr>tables = loaded_tables, query = ''SELEKT * FROM roles'', queryResult = None,
       queryError = Some ''Parse error''\<rparr>, mockData) \<and>
   fst (castedData_at example_runtime [\<lparr>ColumnDefinition.name = ''id'', type = number\<rparr>]
          [[(''id'', Str ''7'')]] [0]) ! 0 = [(''id'', Str ''7'')]"
proof -
  let ?s = "\<lparr>tables = loaded_tables, query = ''SELEKT * FROM roles'', queryResult = Some roles,
             queryError = None\<rparr>"
  have r: "register_tables example_runtime example_engine (tables ?s) [] = (Inr (), mockData)"
    by (simp add: example_register)
  have q: "alasql example_engine (query ?s) mockData = (Inl (JsError ''Parse error''), mockData)"
    by (simp add: example_engine_def example_alasql_def)
  show ?thesis
    using runQuery_engine_throws [OF r q, of "[[(''id'', Str ''7'')]]"
            "[\<lparr>ColumnDefinition.name = ''id'', type = number\<rparr>]" "[0]"]
    by simp
qed

section \<open>The backend's data under the client's actions\<close>

lemma fetch_json_state: "snd (fetch_json rt page m req) = m"
  using serve_state [of page m req]
  by (simp add: fetch_json_def split_beta)

lemma load_table_state: "snd (load_table rt page m nm) = m"
  using fetch_json_state [of rt page m "GET_table nm"]
  by (auto simp: load_table_def split: prod.splits sum.splits jsval.splits)

lemma reload_table_state: "snd (reload_table rt page m nm) = m"
  using fetch_json_state [of rt page m "GET_table nm"]
  by (auto simp: reload_table_def split: prod.splits sum.splits jsval.splits)

lemma fetch_each_state:
  "(\<And>m nm. snd (f m nm) = m) \<Longrightarrow> snd (fetch_each f m nms) = m"
  by (induction nms arbitrary: m) (simp_all add: split_beta)

lemma fetch_tables_state:
  "(\<And>m nm. snd (f m nm) = m) \<Longrightarrow> snd (fetch_tables f rt page m) = m"
  using fetch_json_state [of rt page m GET_tables]
  by (auto simp: fetch_tables_def fetch_each_state split: prod.splits sum.splits option.splits)

lemma fetchData_state: "snd (fetchData rt page m) = m"
  by (simp add: fetchData_def fetch_tables_state load_table_state)

lemma resetToDefault_state: "snd (resetToDefault rt page m) = m"
  by (simp add: resetToDefault_def fetch_tables_state reload_table_state)

lemma step_backend: "backend (step rt eng page sys a) = backend sys"
proof (cases a)
  case Load
  then show ?thesis using fetchData_state [of rt page "backend sys"]
    by (auto simp: step_def split: prod.splits option.splits)
next
  case ResetToDefault
  then show ?thesis using resetToDefault_state [of rt page "backend sys"]
    by (auto simp: step_def split: prod.splits option.splits)
qed (simp_all add: step_def split_beta split: sum.splits)

lemma steps_backend: "backend (foldl (step rt eng page) sys acts) = backend sys"
  by (induction acts arbitrary: sys) (simp_all add: step_backend)

text \<open>
  C7. Every route of the server is a \<^verbatim>\<open>GET\<close> route, and no action of the client changes the
  backend's data, whatever the sequence of actions: edits and queries send no request, and
  the requests of the loaders are answered by handlers that leave the data as it was.
  Re-fetching the tables afterwards returns the hardcoded rows.
\<close>

theorem backend_untouched:
  "list_all (\<lambda>r. http_method r = ''GET'') (startServer_routes production) \<and>
   backend (foldl (step rt eng page) sys acts) = backend sys \<and>
   fst (resetToDefault rt page
          (backend (foldl (step rt eng page) \<lparr>backend = mockData, app = s, sql = e\<rparr> acts))) =
     Some reset_tables \<and>
   map (\<lambda>t. (name t, data t)) reset_tables = mockData"
proof (intro conjI)
  show "list_all (\<lambda>r. http_method r = ''GET'') (startServer_routes production)"
    by (simp add: startServer_routes_def)
  show "backend (foldl (step rt eng page) sys acts) = backend sys"
    by (simp add: steps_backend)
  show "fst (resetToDefault rt page
          (backend (foldl (step rt eng page) \<lparr>backend = mockData, app = s, sql = e\<rparr> acts))) =
     Some reset_tables"
    by (simp add: steps_backend resetToDefault_mockData)
  show "map (\<lambda>t. (name t, data t)) reset_tables = mockData"
    by (simp add: reset_tables_def mockData_def)
qed

theorem backend_untouched_witness:
  "fst (resetToDefault example_runtime (\<lambda>url. \<lparr>status = 404, body = Str url\<rparr>)
          (backend (foldl (step example_runtime example_engine (\<lambda>url. \<lparr>status = 404, body = Str url\<rparr>))
             \<lparr>backend = mockData,
              app = \<lparr>tables = [], query = ''SELECT * FROM users'', queryResult = None, queryError = None\<rparr>,
              sql = []\<rparr>
             [Load, UpdateCell ''users'' 0 ''name'' (Str ''Eve''), AddRow ''roles'' (Finite 0),
              UpdateColumnType ''orders'' ''amount'' string, RunQuery]))) = Some reset_tables"
  by (rule backend_untouched [THEN conjunct2, THEN conjunct2, THEN conjunct1])

end
